theory Spec2Isabelle
  imports Complex_Main "HOL-Library.Word"
begin

section \<open>Python values\<close>

text \<open>
  A Python \<open>str\<close> is a sequence of Unicode code points. The literals of the program are
  ASCII and are written \<open>py ''...''\<close>.
\<close>

type_synonym pystr = "nat list"

definition py :: "string \<Rightarrow> pystr" where
  "py s = map of_char s"

text \<open>
  The floats \<open>json.loads\<close> can produce: finite values, the infinities and NaN
  (\<open>0.0\<close> and \<open>-0.0\<close> are both \<open>Finite 0\<close>).
\<close>

datatype pyfloat = Finite rat | Infinity bool | NaN

text \<open>
  The values \<open>json.loads\<close> returns: \<open>None\<close>, \<open>bool\<close>, \<open>int\<close>, \<open>float\<close>, \<open>str\<close>,
  \<open>list\<close> and \<open>dict\<close> with string keys (the items in insertion order). The keys of a
  dict are distinct; a lookup reads the first item with the key.
\<close>

datatype json =
    JNull
  | JBool bool
  | JInt int
  | JFloat pyfloat
  | JStr pystr
  | JArr "json list"
  | JObj "(pystr \<times> json) list"

type_synonym pydict = "(pystr \<times> json) list"

datatype py_error =
    RuntimeError pystr
  | AttributeError
  | TypeError
  | IndexError
  | UnicodeDecodeError
  | JSONDecodeError
  | APIError pystr
  | LibraryError pystr

text \<open>Truth value testing, as \<open>or\<close>, \<open>not\<close> and \<open>if\<close> apply it.\<close>

fun truthy :: "json \<Rightarrow> bool" where
  "truthy JNull = False"
| "truthy (JBool b) = b"
| "truthy (JInt i) = (i \<noteq> 0)"
| "truthy (JFloat f) = (f \<noteq> Finite 0)"
| "truthy (JStr s) = (s \<noteq> [])"
| "truthy (JArr xs) = (xs \<noteq> [])"
| "truthy (JObj kvs) = (kvs \<noteq> [])"

text \<open>\<open>a or b\<close>\<close>

definition py_or :: "json \<Rightarrow> json \<Rightarrow> json" where
  "py_or a b = (if truthy a then a else b)"

text \<open>\<open>d.get(k, default)\<close> and \<open>d.get(k)\<close> on a dict\<close>

definition dict_get_default :: "pydict \<Rightarrow> pystr \<Rightarrow> json \<Rightarrow> json" where
  "dict_get_default d k dflt = (case map_of d k of None \<Rightarrow> dflt | Some v \<Rightarrow> v)"

definition dict_get :: "pydict \<Rightarrow> pystr \<Rightarrow> json" where
  "dict_get d k = dict_get_default d k JNull"

text \<open>
  Iteration, as \<open>for x in v\<close> does it: a list yields its elements, a string its
  characters (strings of length one), a dict its keys; the other values are not iterable.
\<close>

fun py_iter :: "json \<Rightarrow> py_error + json list" where
  "py_iter (JArr xs) = Inr xs"
| "py_iter (JStr s) = Inr (map (\<lambda>c. JStr [c]) s)"
| "py_iter (JObj kvs) = Inr (map (\<lambda>kv. JStr (fst kv)) kvs)"
| "py_iter _ = Inl TypeError"

text \<open>
  \<open>str.isspace\<close> of one character and \<open>str.strip()\<close>: the characters Python takes for
  whitespace are removed from both ends.
\<close>

definition isspace :: "nat \<Rightarrow> bool" where
  "isspace c \<longleftrightarrow>
     (0x09 \<le> c \<and> c \<le> 0x0D) \<or> (0x1C \<le> c \<and> c \<le> 0x20) \<or> c = 0x85 \<or> c = 0xA0 \<or>
     c = 0x1680 \<or> (0x2000 \<le> c \<and> c \<le> 0x200A) \<or> c = 0x2028 \<or> c = 0x2029 \<or>
     c = 0x202F \<or> c = 0x205F \<or> c = 0x3000"

definition strip :: "pystr \<Rightarrow> pystr" where
  "strip s = rev (dropWhile isspace (rev (dropWhile isspace s)))"

text \<open>
  \<open>str(m).strip()\<close> taken as a condition. For a string \<open>str(m)\<close> is \<open>m\<close>; for every
  other value (\<open>None\<close>, \<open>True\<close>, \<open>3\<close>, \<open>1.5\<close>, \<open>[]\<close>, \<open>{}\<close>, ...) it is a text that
  begins with a character that is not whitespace, so the condition holds.
\<close>

fun str_strip_truthy :: "json \<Rightarrow> bool" where
  "str_strip_truthy (JStr s) = (strip s \<noteq> [])"
| "str_strip_truthy _ = True"

text \<open>\<open>m.strip()\<close>: only a string has the method.\<close>

fun py_strip :: "json \<Rightarrow> py_error + pystr" where
  "py_strip (JStr s) = Inr (strip s)"
| "py_strip _ = Inl AttributeError"

text \<open>\<open>sep.join(xs)\<close> for a list of strings\<close>

fun py_join :: "pystr \<Rightarrow> pystr list \<Rightarrow> pystr" where
  "py_join sep [] = []"
| "py_join sep [x] = x"
| "py_join sep (x # y # ys) = x @ sep @ py_join sep (y # ys)"

section \<open>Normalisation of the model's reply\<close>

definition NOT_SPECIFIED :: pystr where
  "NOT_SPECIFIED = py ''Not specified in document''"

definition KEY_scenarios :: pystr where
  "KEY_scenarios = py ''scenarios''"

definition KEY_requirement_location :: pystr where
  "KEY_requirement_location = py ''requirement_location''"

definition KEY_integration_flow_summary :: pystr where
  "KEY_integration_flow_summary = py ''integration_flow_summary''"

definition KEY_related_modules :: pystr where
  "KEY_related_modules = py ''related_modules_functions_systems''"

definition KEY_test_scenario_integration :: pystr where
  "KEY_test_scenario_integration = py ''test_scenario_integration''"

definition KEY_flow_type :: pystr where
  "KEY_flow_type = py ''flow_type''"

definition COL_location :: pystr where
  "COL_location = py ''Requirement Location (as per document)''"

definition COL_summary :: pystr where
  "COL_summary = py ''Integration Flow Summary''"

definition COL_modules :: pystr where
  "COL_modules = py ''Related Modules/Functions/Systems''"

definition COL_scenario :: pystr where
  "COL_scenario = py ''Test Scenario (Integration)''"

definition COL_flow :: pystr where
  "COL_flow = py ''Main/Alternate/Exception Flow''"

text \<open>
  The four fields that are read with \<open>s.get(key) or "Not specified in document"\<close>, each
  with the column its value goes to.
\<close>

definition text_fields :: "(pystr \<times> pystr) list" where
  "text_fields =
     [(KEY_requirement_location, COL_location),
      (KEY_integration_flow_summary, COL_summary),
      (KEY_test_scenario_integration, COL_scenario),
      (KEY_flow_type, COL_flow)]"

text \<open>
  The list comprehension \<open>[m.strip() for m in modules if str(m).strip()]\<close> over the
  items of \<open>modules\<close>: the first item that passes the condition and has no \<open>strip\<close> raises.
\<close>

fun stripped_modules :: "json list \<Rightarrow> py_error + pystr list" where
  "stripped_modules [] = Inr []"
| "stripped_modules (m # ms) =
     (if str_strip_truthy m then
        (case py_strip m of
           Inl e \<Rightarrow> Inl e
         | Inr t \<Rightarrow> (case stripped_modules ms of Inl e \<Rightarrow> Inl e | Inr ts \<Rightarrow> Inr (t # ts)))
      else stripped_modules ms)"

text \<open>\<open>", ".join([m.strip() for m in modules if str(m).strip()])\<close>\<close>

definition joined_modules :: "json \<Rightarrow> py_error + pystr" where
  "joined_modules modules =
     (case py_iter modules of
        Inl e \<Rightarrow> Inl e
      | Inr ms \<Rightarrow> (case stripped_modules ms of
                     Inl e \<Rightarrow> Inl e
                   | Inr ts \<Rightarrow> Inr (py_join (py '', '') ts)))"

text \<open>\<open>isinstance(modules, list) and len(modules) < 2\<close>\<close>

fun short_list :: "json \<Rightarrow> bool" where
  "short_list (JArr xs) = (length xs < 2)"
| "short_list _ = False"

text \<open>\<open>modules = s.get("related_modules_functions_systems") or []\<close>\<close>

definition modules_of :: "pydict \<Rightarrow> json" where
  "modules_of s = py_or (dict_get s KEY_related_modules) (JArr [])"

text \<open>
  The body of the loop \<open>for s in scenarios\<close>, for one element \<open>s\<close>: \<open>Inr None\<close> is
  \<open>continue\<close>, \<open>Inr (Some row)\<close> the dict appended to \<open>norm\<close>. \<open>s.get\<close> exists only on
  a dict.
\<close>

fun normalize_one :: "json \<Rightarrow> py_error + pydict option" where
  "normalize_one (JObj s) =
     (let loc = py_or (dict_get s KEY_requirement_location) (JStr NOT_SPECIFIED);
          summary = py_or (dict_get s KEY_integration_flow_summary) (JStr NOT_SPECIFIED);
          modules = py_or (dict_get s KEY_related_modules) (JArr [])
      in if short_list modules then Inr None
         else
           let scenario = py_or (dict_get s KEY_test_scenario_integration) (JStr NOT_SPECIFIED);
               ftype = py_or (dict_get s KEY_flow_type) (JStr NOT_SPECIFIED)
           in (case joined_modules modules of
                 Inl e \<Rightarrow> Inl e
               | Inr joined \<Rightarrow>
                   Inr (Some [(COL_location, loc),
                              (COL_summary, summary),
                              (COL_modules, JStr joined),
                              (COL_scenario, scenario),
                              (COL_flow, ftype)])))"
| "normalize_one _ = Inl AttributeError"

text \<open>The loop itself, with the list \<open>norm\<close> built so far (\<open>norm_rows\<close>).\<close>

fun normalize_loop :: "json list \<Rightarrow> pydict list \<Rightarrow> py_error + pydict list" where
  "normalize_loop [] norm_rows = Inr norm_rows"
| "normalize_loop (s # ss) norm_rows =
     (case normalize_one s of
        Inl e \<Rightarrow> Inl e
      | Inr None \<Rightarrow> normalize_loop ss norm_rows
      | Inr (Some row) \<Rightarrow> normalize_loop ss (norm_rows @ [row]))"

text \<open>
  From \<open>scenarios = parsed.get("scenarios", [])\<close> to \<open>return norm\<close>: \<open>parsed\<close> is what
  \<open>json.loads\<close> returned.
\<close>

fun normalize_scenarios :: "json \<Rightarrow> py_error + pydict list" where
  "normalize_scenarios (JObj parsed) =
     (case py_iter (dict_get_default parsed KEY_scenarios (JArr [])) of
        Inl e \<Rightarrow> Inl e
      | Inr scenarios \<Rightarrow> normalize_loop scenarios [])"
| "normalize_scenarios _ = Inl AttributeError"

section \<open>The document loader\<close>

type_synonym byte = "8 word"

text \<open>
  \<open>bytes.decode("utf-8", errors)\<close>. One step looks at the head of the input and
  either decodes one character from one to four bytes, or finds the input malformed: a
  byte that cannot start a character, a byte that cannot continue one (after \<open>k\<close> good
  bytes), or the end of the data inside a character.
\<close>

datatype utf8_step =
    Decoded nat nat
  | Invalid_start
  | Invalid_continuation nat
  | Unexpected_end

definition is_continuation :: "byte \<Rightarrow> bool" where
  "is_continuation b \<longleftrightarrow> 0x80 \<le> b \<and> b < 0xC0"

fun utf8_decode_one :: "byte list \<Rightarrow> utf8_step" where
  "utf8_decode_one [] = Unexpected_end"
| "utf8_decode_one (ch # rest) =
     (if ch < 0x80 then Decoded (unat ch) 1
      else if ch < 0xE0 then
        (if ch < 0xC2 then Invalid_start
         else case rest of
           [] \<Rightarrow> Unexpected_end
         | ch2 # _ \<Rightarrow>
             if \<not> is_continuation ch2 then Invalid_continuation 1
             else Decoded ((unat ch - 0xC0) * 0x40 + (unat ch2 - 0x80)) 2)
      else if ch < 0xF0 then
        (case rest of
           [] \<Rightarrow> Unexpected_end
         | ch2 # rest2 \<Rightarrow>
             if \<not> is_continuation ch2 \<or> (if ch2 < 0xA0 then ch = 0xE0 else ch = 0xED)
             then Invalid_continuation 1
             else case rest2 of
               [] \<Rightarrow> Unexpected_end
             | ch3 # _ \<Rightarrow>
                 if \<not> is_continuation ch3 then Invalid_continuation 2
                 else Decoded ((unat ch - 0xE0) * 0x1000 + (unat ch2 - 0x80) * 0x40
                               + (unat ch3 - 0x80)) 3)
      else if ch < 0xF5 then
        (case rest of
           [] \<Rightarrow> Unexpected_end
         | ch2 # rest2 \<Rightarrow>
             if \<not> is_continuation ch2 \<or> (if ch2 < 0x90 then ch = 0xF0 else ch = 0xF4)
             then Invalid_continuation 1
             else case rest2 of
               [] \<Rightarrow> Unexpected_end
             | ch3 # rest3 \<Rightarrow>
                 if \<not> is_continuation ch3 then Invalid_continuation 2
                 else case rest3 of
                   [] \<Rightarrow> Unexpected_end
                 | ch4 # _ \<Rightarrow>
                     if \<not> is_continuation ch4 then Invalid_continuation 3
                     else Decoded ((unat ch - 0xF0) * 0x40000 + (unat ch2 - 0x80) * 0x1000
                                   + (unat ch3 - 0x80) * 0x40 + (unat ch4 - 0x80)) 4)
      else Invalid_start)"

text \<open>
  The number of bytes a step uses up: those of the character, or those of the
  malformed range (to the end of the data when the data ends inside a character).
\<close>

fun consumed :: "utf8_step \<Rightarrow> byte list \<Rightarrow> nat" where
  "consumed (Decoded cp n) bs = n"
| "consumed Invalid_start bs = 1"
| "consumed (Invalid_continuation k) bs = k"
| "consumed Unexpected_end bs = length bs"

text \<open>
  The error handlers: \<open>strict\<close> raises \<open>UnicodeDecodeError\<close> at the first malformed
  range, \<open>replace\<close> puts U+FFFD in its place and goes on behind it.
\<close>

datatype errors = Strict | Replace

definition REPLACEMENT_CHARACTER :: nat where
  "REPLACEMENT_CHARACTER = 0xFFFD"

function utf8_decode :: "errors \<Rightarrow> byte list \<Rightarrow> py_error + pystr" where
  "utf8_decode errors [] = Inr []"
| "utf8_decode errors (b # bs) =
     (let step = utf8_decode_one (b # bs);
          rest = drop (consumed step (b # bs)) (b # bs)
      in case step of
           Decoded cp n \<Rightarrow>
             (case utf8_decode errors rest of Inl e \<Rightarrow> Inl e | Inr s \<Rightarrow> Inr (cp # s))
         | _ \<Rightarrow>
             (case errors of
                Strict \<Rightarrow> Inl UnicodeDecodeError
              | Replace \<Rightarrow>
                  (case utf8_decode errors rest of
                     Inl e \<Rightarrow> Inl e
                   | Inr s \<Rightarrow> Inr (REPLACEMENT_CHARACTER # s))))"
  by pat_completeness auto

lemma consumed_positive: "0 < consumed (utf8_decode_one (b # bs)) (b # bs)"
  by (simp split: list.splits)

termination utf8_decode
proof (relation "measure (\<lambda>(errors, bs). length bs)")
  show "wf (measure (\<lambda>(errors, bs). length bs))"
    by simp
next
  fix errors :: errors and b :: byte and bs step rest cp n
  assume "step = utf8_decode_one (b # bs)" "rest = drop (consumed step (b # bs)) (b # bs)"
  then show "((errors, rest), (errors, b # bs)) \<in> measure (\<lambda>(errors, bs). length bs)"
    using consumed_positive [of b bs] by simp
qed (use consumed_positive in \<open>auto\<close>)

text \<open>
  The uploaded file is a buffer in memory with a read position; \<open>read()\<close> returns the
  bytes from the position to the end and leaves the position at the end.
\<close>

record uploaded_file =
  content :: "byte list"
  pos :: nat

definition file_read :: "uploaded_file \<Rightarrow> byte list \<times> uploaded_file" where
  "file_read f = (drop (pos f) (content f), f\<lparr>pos := max (pos f) (length (content f))\<rparr>)"

text \<open>
  \<open>read_text\<close>: the \<open>except\<close> branch reads the file again, from where the first
  \<open>read()\<close> left it, and decodes with the default encoding, which is UTF-8.
\<close>

definition read_text :: "uploaded_file \<Rightarrow> (py_error + pystr) \<times> uploaded_file" where
  "read_text file =
     (let (bs, file1) = file_read file
      in case utf8_decode Replace bs of
           Inr text \<Rightarrow> (Inr text, file1)
         | Inl e \<Rightarrow> (let (bs2, file2) = file_read file1 in (utf8_decode Replace bs2, file2)))"

section \<open>The request to the model and its reply\<close>

text \<open>
  What \<open>client.chat.completions.create\<close> is called with (the schema of the tool, a
  constant, is left out) and what the program reads of its result:
  \<open>resp.choices[0].message.tool_calls[0].function.arguments\<close>.
\<close>

record request =
  model :: pystr
  temperature :: rat
  messages :: "(pystr \<times> pystr) list"
  tool_choice :: pystr

record function_call =
  name :: pystr
  arguments :: pystr

record tool_call =
  func :: function_call

record message =
  tool_calls :: "tool_call list option"

record choice =
  message :: message

record response =
  choices :: "choice list"

definition system_prompt :: pystr where
  "system_prompt =
     py ''You are a senior test analyst specializing in INTEGRATION scenario extraction with a big-picture, end-to-end perspective.'' @ [10] @
     py ''Goal: From the provided document, extract ONLY integration flows that span TWO OR MORE modules/functions/systems, emphasizing high-level business journeys and cross-system interactions.'' @ [10, 10] @
     py ''BIGGER-PICTURE RULES:'' @ [10] @
     py ''1) Prioritize end-to-end outcomes and system-to-system interactions. Collapse granular UI/internal steps into higher-level actions.'' @ [10] @
     py ''2) Do NOT invent or assume anything not in the document. If something is missing or ambiguous, use 'Not specified in document'.'' @ [10] @
     py ''3) Include main (happy) flows, and only alternates/exceptions that materially change cross-system interactions, data contracts, or outcomes.'' @ [10] @
     py ''4) Skip single-module/unit-level items and minor step variations that do not affect integrations.'' @ [10] @
     py ''5) Each scenario must be clear for stakeholders and highlight participating systems and the core integration touchpoints; when mentioned in the source, note APIs/events/queues/identity propagation/data mapping; otherwise use 'Not specified in document'.'' @ [10] @
     py ''6) 'Requirement Location' should clearly help the reader find the source: section/heading names or a short quoted phrase if no headings.'' @ [10] @
     py ''7) Output MUST be a single function call to submit_integration_scenarios.'' @ [10]"

text \<open>The user prompt holds the document between two markers (8212 is the dash U+2014).\<close>

definition user_prompt :: "pystr \<Rightarrow> pystr" where
  "user_prompt doc_text =
     py ''Extract integration test scenarios based ONLY on the document below.'' @ [10] @
     py ''Focus on the bigger picture: end-to-end flows with 2+ modules/functions/systems and core cross-system interactions. Merge micro-steps; keep a minimal, comprehensive set of scenarios. No inventions'' @ [8212] @
     py ''if unknown, write 'Not specified in document'.'' @ [10] @
     py ''Return as an array of objects via the function call.'' @ [10] @
     [10] @ py ''--- DOCUMENT START ---'' @ [10] @
     doc_text @ [10] @
     py ''--- DOCUMENT END ---'' @ [10]"

definition make_request :: "pystr \<Rightarrow> request" where
  "make_request doc_text =
     \<lparr>model = py ''gpt-4.1'',
      temperature = 1 / 10,
      messages = [(py ''system'', system_prompt), (py ''user'', user_prompt doc_text)],
      tool_choice = py ''submit_integration_scenarios''\<rparr>"

definition NO_FUNCTION_CALL :: pystr where
  "NO_FUNCTION_CALL =
     py ''Model did not return a function call. Try a smaller document or adjust content.''"

text \<open>
  \<open>extract_scenarios_with_function_call\<close>. Two things are outside the program and are
  parameters here: \<open>api\<close> is the client library with the service behind it
  (\<open>get_client()\<close> and \<open>client.chat.completions.create\<close>: a response, or the exception
  they raise), \<open>json_loads\<close> is \<open>json.loads\<close> (\<open>None\<close> when it raises on the text).
  \<open>sent\<close> is the list of the requests handed to \<open>api\<close> so far; it is returned with
  the request of this call added.
\<close>

definition extract_scenarios_with_function_call ::
  "(request \<Rightarrow> py_error + response) \<Rightarrow> (pystr \<Rightarrow> json option) \<Rightarrow> pystr \<Rightarrow> request list
     \<Rightarrow> (py_error + pydict list) \<times> request list" where
  "extract_scenarios_with_function_call api json_loads doc_text sent =
     (let req = make_request doc_text;
          sent1 = sent @ [req]
      in case api req of
           Inl e \<Rightarrow> (Inl e, sent1)
         | Inr resp \<Rightarrow>
             (case choices resp of
                [] \<Rightarrow> (Inl IndexError, sent1)
              | c # _ \<Rightarrow>
                  (case tool_calls (message c) of
                     None \<Rightarrow> (Inl (RuntimeError NO_FUNCTION_CALL), sent1)
                   | Some [] \<Rightarrow> (Inl (RuntimeError NO_FUNCTION_CALL), sent1)
                   | Some (tc # _) \<Rightarrow>
                       (case json_loads (arguments (func tc)) of
                          None \<Rightarrow> (Inl JSONDecodeError, sent1)
                        | Some parsed \<Rightarrow> (normalize_scenarios parsed, sent1)))))"

section \<open>The main action\<close>

text \<open>
  What one run of the script shows, in order: the calls of \<open>st.info\<close>, \<open>st.error\<close>,
  \<open>st.warning\<close>, \<open>st.success\<close>, \<open>st.dataframe\<close> (the columns and the rows of the frame)
  and \<open>st.download_button\<close> (the file name and the data). \<open>Went_wrong e\<close> is
  \<open>st.error(f"Something went wrong: {e}")\<close>, and \<open>Uncaught e\<close> an exception that
  leaves the script.
\<close>

datatype ui_event =
    Info pystr
  | Error pystr
  | Warning pystr
  | Success pystr
  | Dataframe "pystr list" "pydict list"
  | Download_button pystr "byte list"
  | Went_wrong py_error
  | Uncaught py_error

record world =
  sent :: "request list"
  shown :: "ui_event list"

definition st :: "ui_event \<Rightarrow> world \<Rightarrow> world" where
  "st ev w = w\<lparr>shown := shown w @ [ev]\<rparr>"

text \<open>
  The calls into pandas and the two Streamlit calls that take data run inside the
  \<open>try\<close> and can raise on the values of the rows. They are outside the program, and a
  parameter here: \<open>new_frame\<close> is \<open>pd.DataFrame(rows, columns=...)\<close> and \<open>show_frame\<close> is
  \<open>st.dataframe(df, ...)\<close> (the exception raised, if any), \<open>csv_bytes\<close> is
  \<open>df.to_csv(index=False).encode("utf-8")\<close> (the bytes, or the exception), and
  \<open>offer_download\<close> is \<open>st.download_button\<close> on these bytes (the exception, if any).
\<close>

record display_library =
  new_frame :: "pystr list \<Rightarrow> pydict list \<Rightarrow> py_error option"
  show_frame :: "pystr list \<Rightarrow> pydict list \<Rightarrow> py_error option"
  csv_bytes :: "pystr list \<Rightarrow> pydict list \<Rightarrow> py_error + byte list"
  offer_download :: "byte list \<Rightarrow> py_error option"

definition OPENAI_API_KEY :: pystr where
  "OPENAI_API_KEY = py ''OPENAI_API_KEY''"

definition KEY_NOT_SET :: pystr where
  "KEY_NOT_SET = py ''OPENAI_API_KEY is not set. Please set it in your environment and retry.''"

definition columns :: "pystr list" where
  "columns = [COL_location, COL_summary, COL_modules, COL_scenario, COL_flow]"

text \<open>\<open>not os.getenv(k)\<close>: the variable is unset, or set to the empty string.\<close>

definition not_getenv :: "(pystr \<rightharpoonup> pystr) \<Rightarrow> pystr \<Rightarrow> bool" where
  "not_getenv environ k = (case environ k of None \<Rightarrow> True | Some v \<Rightarrow> v = [])"

text \<open>
  The \<open>else\<close> branch of \<open>if not rows\<close>: the frame, the success message, the table and
  the download, each call in the order of the source; an exception in one of them ends
  the branch in the \<open>except\<close> clause, with what was shown before it left in place.
\<close>

definition show_rows :: "display_library \<Rightarrow> pydict list \<Rightarrow> world \<Rightarrow> world" where
  "show_rows lib rows w =
     (case new_frame lib columns rows of
        Some e \<Rightarrow> st (Went_wrong e) w
      | None \<Rightarrow>
          (let w1 = st (Success (py ''Extraction complete.'')) w
           in case show_frame lib columns rows of
                Some e \<Rightarrow> st (Went_wrong e) w1
              | None \<Rightarrow>
                  (let w2 = st (Dataframe columns rows) w1
                   in case csv_bytes lib columns rows of
                        Inl e \<Rightarrow> st (Went_wrong e) w2
                      | Inr csv \<Rightarrow>
                          (case offer_download lib csv of
                             Some e \<Rightarrow> st (Went_wrong e) w2
                           | None \<Rightarrow>
                               st (Download_button (py ''integration_test_scenarios.csv'') csv)
                                  w2))))"

text \<open>
  The script from \<open>if uploaded:\<close> on. \<open>uploaded\<close> is what the file uploader returned,
  \<open>button\<close> whether the button was pressed in this run, \<open>environ\<close> the environment.
\<close>

definition main_action ::
  "display_library \<Rightarrow> (request \<Rightarrow> py_error + response) \<Rightarrow> (pystr \<Rightarrow> json option)
     \<Rightarrow> (pystr \<rightharpoonup> pystr) \<Rightarrow> uploaded_file option \<Rightarrow> bool \<Rightarrow> world \<Rightarrow> world" where
  "main_action lib api json_loads environ uploaded button w =
     (case uploaded of
        None \<Rightarrow> st (Info (py ''Please upload a .txt or .md file to begin.'')) w
      | Some file \<Rightarrow>
          (case fst (read_text file) of
             Inl e \<Rightarrow> st (Uncaught e) w
           | Inr text \<Rightarrow>
               if button then
                 (if not_getenv environ OPENAI_API_KEY then st (Error KEY_NOT_SET) w
                  else
                    (case extract_scenarios_with_function_call api json_loads text (sent w) of
                       (Inl e, sent1) \<Rightarrow> st (Went_wrong e) (w\<lparr>sent := sent1\<rparr>)
                     | (Inr rows, sent1) \<Rightarrow>
                         if rows = [] then
                           st (Warning (py ''No integration flows found (2+ modules). Check the document content.''))
                              (w\<lparr>sent := sent1\<rparr>)
                         else show_rows lib rows (w\<lparr>sent := sent1\<rparr>)))
               else w))"

section \<open>Properties\<close>

subsection \<open>Auxiliary facts\<close>

lemma py_eq_iff [simp]: "py a = py b \<longleftrightarrow> a = b"
  by (simp add: py_def inj_map_eq_map[OF inj_of_char])

lemmas KEY_defs = KEY_scenarios_def KEY_requirement_location_def KEY_integration_flow_summary_def
  KEY_related_modules_def KEY_test_scenario_integration_def KEY_flow_type_def

lemmas COL_defs = COL_location_def COL_summary_def COL_modules_def COL_scenario_def COL_flow_def

lemmas eval_defs = dict_get_def dict_get_default_def py_or_def joined_modules_def strip_def
  isspace_def KEY_defs COL_defs NOT_SPECIFIED_def

lemma NOT_SPECIFIED_nonempty: "NOT_SPECIFIED \<noteq> []"
  by (simp add: NOT_SPECIFIED_def py_def)

lemma py_or_truthy: "truthy d \<Longrightarrow> truthy (py_or v d)"
  by (simp add: py_or_def)

lemma dict_get_absent: "map_of s k = None \<Longrightarrow> dict_get s k = JNull"
  by (simp add: dict_get_def dict_get_default_def)

lemma dict_get_present: "map_of s k = Some v \<Longrightarrow> dict_get s k = v"
  by (simp add: dict_get_def dict_get_default_def)

subsection \<open>One element of the reply\<close>

lemma normalize_one_row:
  "normalize_one (JObj s) = Inr (Some row) \<longleftrightarrow>
     \<not> short_list (py_or (dict_get s KEY_related_modules) (JArr [])) \<and>
     (\<exists>joined. joined_modules (py_or (dict_get s KEY_related_modules) (JArr [])) = Inr joined \<and>
        row = [(COL_location, py_or (dict_get s KEY_requirement_location) (JStr NOT_SPECIFIED)),
               (COL_summary, py_or (dict_get s KEY_integration_flow_summary) (JStr NOT_SPECIFIED)),
               (COL_modules, JStr joined),
               (COL_scenario, py_or (dict_get s KEY_test_scenario_integration) (JStr NOT_SPECIFIED)),
               (COL_flow, py_or (dict_get s KEY_flow_type) (JStr NOT_SPECIFIED))])"
  by (auto simp add: Let_def split: sum.splits)

lemma normalize_one_skip:
  "normalize_one (JObj s) = Inr None \<longleftrightarrow>
     short_list (py_or (dict_get s KEY_related_modules) (JArr []))"
  by (auto simp add: Let_def split: sum.splits)

lemma stripped_modules_strings:
  "stripped_modules ms = Inr ts \<Longrightarrow>
     \<exists>names. ms = map JStr names \<and> ts = map strip (filter (\<lambda>n. strip n \<noteq> []) names)"
proof (induction ms arbitrary: ts)
  case Nil
  then show ?case by simp
next
  case (Cons m ms)
  from Cons.prems obtain n where m: "m = JStr n"
    by (cases m) (simp_all split: if_splits)
  show ?case
  proof (cases "strip n = []")
    case True
    with Cons.prems m have "stripped_modules ms = Inr ts" by simp
    from Cons.IH [OF this] obtain names where
      "ms = map JStr names" "ts = map strip (filter (\<lambda>n. strip n \<noteq> []) names)" by blast
    with m True have "m # ms = map JStr (n # names) \<and>
        ts = map strip (filter (\<lambda>n. strip n \<noteq> []) (n # names))" by simp
    then show ?thesis by (rule exI [of _ "n # names"])
  next
    case False
    with Cons.prems m obtain ts' where ts': "stripped_modules ms = Inr ts'" "ts = strip n # ts'"
      by (auto split: sum.splits)
    from Cons.IH [OF ts'(1)] obtain names where
      "ms = map JStr names" "ts' = map strip (filter (\<lambda>n. strip n \<noteq> []) names)" by blast
    with m False ts'(2) have "m # ms = map JStr (n # names) \<and>
        ts = map strip (filter (\<lambda>n. strip n \<noteq> []) (n # names))" by simp
    then show ?thesis by (rule exI [of _ "n # names"])
  qed
qed

lemma stripped_modules_of_strings:
  "stripped_modules (map JStr names) = Inr (map strip (filter (\<lambda>n. strip n \<noteq> []) names))"
  by (induction names) simp_all

lemma text_field_column:
  assumes "normalize_one (JObj s) = Inr (Some row)" "(k, col) \<in> set text_fields"
  shows "map_of row col = Some (py_or (dict_get s k) (JStr NOT_SPECIFIED))"
proof -
  from assms(1) obtain joined where
    "row = [(COL_location, py_or (dict_get s KEY_requirement_location) (JStr NOT_SPECIFIED)),
            (COL_summary, py_or (dict_get s KEY_integration_flow_summary) (JStr NOT_SPECIFIED)),
            (COL_modules, JStr joined),
            (COL_scenario, py_or (dict_get s KEY_test_scenario_integration) (JStr NOT_SPECIFIED)),
            (COL_flow, py_or (dict_get s KEY_flow_type) (JStr NOT_SPECIFIED))]"
    unfolding normalize_one_row by blast
  with assms(2) show ?thesis
    by (auto simp add: text_fields_def COL_defs)
qed

lemma modules_column:
  assumes "normalize_one (JObj s) = Inr (Some row)"
  shows "\<exists>joined. joined_modules (py_or (dict_get s KEY_related_modules) (JArr [])) = Inr joined \<and>
           map_of row COL_modules = Some (JStr joined)"
proof -
  from assms obtain joined where
    "joined_modules (py_or (dict_get s KEY_related_modules) (JArr [])) = Inr joined"
    "row = [(COL_location, py_or (dict_get s KEY_requirement_location) (JStr NOT_SPECIFIED)),
            (COL_summary, py_or (dict_get s KEY_integration_flow_summary) (JStr NOT_SPECIFIED)),
            (COL_modules, JStr joined),
            (COL_scenario, py_or (dict_get s KEY_test_scenario_integration) (JStr NOT_SPECIFIED)),
            (COL_flow, py_or (dict_get s KEY_flow_type) (JStr NOT_SPECIFIED))]"
    unfolding normalize_one_row by blast
  then show ?thesis
    by (simp add: COL_defs)
qed

lemma joined_modules_string:
  "joined_modules (JStr str) =
     Inr (py_join (py '', '') (map strip (filter (\<lambda>n. strip n \<noteq> []) (map (\<lambda>c. [c]) str))))"
proof -
  have "map (\<lambda>c. JStr [c]) str = map JStr (map (\<lambda>c. [c]) str)"
    by simp
  then show ?thesis
    by (simp only: joined_modules_def py_iter.simps stripped_modules_of_strings sum.case)
qed

subsection \<open>The loop over the reply\<close>

lemma normalize_loop_rows:
  "normalize_loop ss acc = Inr rows \<Longrightarrow>
     map (\<lambda>r. Inr (Some r)) rows =
       map (\<lambda>r. Inr (Some r)) acc @ filter (\<lambda>r. r \<noteq> Inr None) (map normalize_one ss)"
proof (induction ss arbitrary: acc)
  case Nil
  then show ?case by simp
next
  case (Cons s ss)
  show ?case
  proof (cases "normalize_one s")
    case (Inl e)
    with Cons.prems show ?thesis by simp
  next
    case (Inr r)
    show ?thesis
    proof (cases r)
      case None
      with Inr Cons.prems have "normalize_loop ss acc = Inr rows" by simp
      from Cons.IH [OF this] Inr None show ?thesis by simp
    next
      case (Some row)
      with Inr Cons.prems have "normalize_loop ss (acc @ [row]) = Inr rows" by simp
      from Cons.IH [OF this] Inr Some show ?thesis by simp
    qed
  qed
qed

lemma stripped_modules_error: "stripped_modules ms = Inl e \<Longrightarrow> e = AttributeError"
proof (induction ms)
  case Nil
  then show ?case by simp
next
  case (Cons m ms)
  then show ?case
    by (cases m) (auto split: if_splits sum.splits)
qed

lemma py_iter_error: "py_iter v = Inl e \<Longrightarrow> e = TypeError"
  by (cases v) simp_all

lemma joined_modules_error: "joined_modules v = Inl e \<Longrightarrow> e = AttributeError \<or> e = TypeError"
  by (auto simp add: joined_modules_def split: sum.splits
      dest: py_iter_error stripped_modules_error)

lemma normalize_one_error: "normalize_one s = Inl e \<Longrightarrow> e = AttributeError \<or> e = TypeError"
  by (cases s) (auto simp add: Let_def split: if_splits sum.splits dest: joined_modules_error)

lemma normalize_loop_error:
  "normalize_loop ss acc = Inl e \<Longrightarrow> e = AttributeError \<or> e = TypeError"
proof (induction ss arbitrary: acc)
  case Nil
  then show ?case by simp
next
  case (Cons s ss)
  show ?case
  proof (cases "normalize_one s")
    case (Inl e')
    with Cons.prems have "e' = e" by simp
    with Inl normalize_one_error show ?thesis by blast
  next
    case (Inr r)
    with Cons.prems Cons.IH show ?thesis
      by (cases r) auto
  qed
qed

lemma normalize_scenarios_error:
  "normalize_scenarios parsed = Inl e \<Longrightarrow> e = AttributeError \<or> e = TypeError"
  by (cases parsed)
     (auto split: sum.splits dest: py_iter_error normalize_loop_error)

subsection \<open>The decoder\<close>

lemma rest_shorter:
  "length (drop (consumed (utf8_decode_one (b # bs)) (b # bs)) (b # bs)) < length (b # bs)"
  using consumed_positive [of b bs] by simp

lemma utf8_decode_replace_total: "\<exists>text. utf8_decode Replace bs = Inr text"
proof (induction bs rule: length_induct)
  case (1 bs)
  show ?case
  proof (cases bs)
    case Nil
    then show ?thesis by simp
  next
    case (Cons b bs')
    let ?step = "utf8_decode_one (b # bs')"
    let ?rest = "drop (consumed ?step (b # bs')) (b # bs')"
    from 1 Cons rest_shorter [of b bs'] obtain s where s: "utf8_decode Replace ?rest = Inr s"
      by blast
    show ?thesis
      unfolding Cons using s
      by (cases ?step) (simp_all add: Let_def del: utf8_decode_one.simps)
  qed
qed

lemma strict_then_replace:
  "utf8_decode Strict bs = Inr s \<Longrightarrow> utf8_decode Replace bs = Inr s"
proof (induction bs arbitrary: s rule: length_induct)
  case (1 bs)
  show ?case
  proof (cases bs)
    case Nil
    with 1 show ?thesis by simp
  next
    case (Cons b bs')
    let ?step = "utf8_decode_one (b # bs')"
    let ?rest = "drop (consumed ?step (b # bs')) (b # bs')"
    have IH: "\<And>t. utf8_decode Strict ?rest = Inr t \<Longrightarrow> utf8_decode Replace ?rest = Inr t"
      using 1(1) Cons rest_shorter [of b bs'] by blast
    from 1(2) show ?thesis
      unfolding Cons using IH
      by (cases ?step) (auto simp add: Let_def simp del: utf8_decode_one.simps split: sum.splits)
  qed
qed

lemma replace_marks_malformed:
  "utf8_decode Strict bs = Inl e \<Longrightarrow> utf8_decode Replace bs = Inr s \<Longrightarrow> REPLACEMENT_CHARACTER \<in> set s"
proof (induction bs arbitrary: s rule: length_induct)
  case (1 bs)
  show ?case
  proof (cases bs)
    case Nil
    with 1 show ?thesis by simp
  next
    case (Cons b bs')
    let ?step = "utf8_decode_one (b # bs')"
    let ?rest = "drop (consumed ?step (b # bs')) (b # bs')"
    have IH: "\<And>t. utf8_decode Strict ?rest = Inl e \<Longrightarrow> utf8_decode Replace ?rest = Inr t
        \<Longrightarrow> REPLACEMENT_CHARACTER \<in> set t"
      using 1(1) Cons rest_shorter [of b bs'] by blast
    from 1(2,3) show ?thesis
      unfolding Cons using IH
      by (cases ?step) (auto simp add: Let_def simp del: utf8_decode_one.simps split: sum.splits)
  qed
qed

lemma read_text_total: "\<exists>decoded. fst (read_text file) = Inr decoded"
proof -
  obtain decoded where "utf8_decode Replace (fst (file_read file)) = Inr decoded"
    using utf8_decode_replace_total by blast
  then show ?thesis
    by (simp add: read_text_def split_def)
qed

lemma read_text_decodes: "fst (read_text file) = utf8_decode Replace (fst (file_read file))"
proof -
  obtain decoded where "utf8_decode Replace (fst (file_read file)) = Inr decoded"
    using utf8_decode_replace_total by blast
  then show ?thesis
    by (simp add: read_text_def split_def)
qed

lemma file_read_from_start: "fst (file_read \<lparr>content = bs, pos = 0\<rparr>) = bs"
  by (simp add: file_read_def)

lemma utf8_decode_replace_step:
  assumes "bs \<noteq> []"
  shows "\<exists>behind. utf8_decode Replace (drop (consumed (utf8_decode_one bs) bs) bs) = Inr behind \<and>
           utf8_decode Replace bs =
             Inr ((case utf8_decode_one bs of Decoded cp n \<Rightarrow> cp | _ \<Rightarrow> REPLACEMENT_CHARACTER)
                  # behind)"
proof -
  from assms obtain b bs' where bs: "bs = b # bs'"
    by (cases bs) auto
  obtain behind where
    behind: "utf8_decode Replace (drop (consumed (utf8_decode_one bs) bs) bs) = Inr behind"
    using utf8_decode_replace_total by blast
  then have "utf8_decode Replace bs =
      Inr ((case utf8_decode_one bs of Decoded cp n \<Rightarrow> cp | _ \<Rightarrow> REPLACEMENT_CHARACTER) # behind)"
    unfolding bs
    by (cases "utf8_decode_one (b # bs')") (simp_all add: Let_def del: utf8_decode_one.simps)
  with behind show ?thesis by blast
qed

subsection \<open>The module filter\<close>

text \<open>
  Claim C1. The filter \<open>len(modules) < 2\<close> counts the entries of the list as the model
  gave them, blank ones included, and only the join leaves the blank ones out. So a reply
  whose one element has the modules \<open>["Billing", " "]\<close> is not discarded: the
  normalized output holds a record for it, and this record names the single module
  \<open>Billing\<close>.
\<close>

theorem blank_module_entry_is_counted:
  "normalize_scenarios (JObj [(KEY_scenarios, JArr [JObj
      [(KEY_requirement_location, JStr (py ''Section 3.1'')),
       (KEY_integration_flow_summary, JStr (py ''Invoice payment'')),
       (KEY_related_modules, JArr [JStr (py ''Billing''), JStr (py '' '')]),
       (KEY_test_scenario_integration, JStr (py ''Pay an invoice'')),
       (KEY_flow_type, JStr (py ''Main Flow''))]])])
   = Inr [[(COL_location, JStr (py ''Section 3.1'')),
           (COL_summary, JStr (py ''Invoice payment'')),
           (COL_modules, JStr (py ''Billing'')),
           (COL_scenario, JStr (py ''Pay an invoice'')),
           (COL_flow, JStr (py ''Main Flow''))]]"
  by (simp add: eval_defs py_def)

text \<open>
  Claim C9, amended. Let the modules field of an element be present and not a list. When
  its value is truthy the filter is skipped and the element is not discarded; when it is
  falsy (the empty string, \<open>0\<close>, \<open>false\<close>, \<open>null\<close>, \<open>{}\<close>) \<open>or []\<close> puts the empty
  list in its place and the element is discarded. A non-empty string gives a record
  whose modules column is made of its characters, those that are not whitespace, joined
  with \<open>", "\<close>; a value that cannot be iterated (a number, \<open>true\<close>) makes the
  normalisation raise \<open>TypeError\<close>.
\<close>

theorem non_list_modules_field:
  assumes "map_of s KEY_related_modules = Some v"
    and "\<forall>xs. v \<noteq> JArr xs"
  shows "(truthy v \<longrightarrow> normalize_one (JObj s) \<noteq> Inr None) \<and>
         (\<not> truthy v \<longrightarrow> normalize_one (JObj s) = Inr None) \<and>
         (\<forall>str. v = JStr str \<and> str \<noteq> [] \<longrightarrow>
            (\<exists>row. normalize_one (JObj s) = Inr (Some row) \<and>
               map_of row COL_modules =
                 Some (JStr (py_join (py '', '')
                   (map strip (filter (\<lambda>n. strip n \<noteq> []) (map (\<lambda>c. [c]) str))))))) \<and>
         (\<forall>e. truthy v \<and> py_iter v = Inl e \<longrightarrow> normalize_one (JObj s) = Inl e)"
proof -
  have get: "dict_get s KEY_related_modules = v"
    by (rule dict_get_present [OF assms(1)])
  have not_short: "\<not> short_list v"
    using assms(2) by (cases v) simp_all
  have 1: "truthy v \<longrightarrow> normalize_one (JObj s) \<noteq> Inr None"
    unfolding normalize_one_skip using get not_short by (simp add: py_or_def)
  have 2: "\<not> truthy v \<longrightarrow> normalize_one (JObj s) = Inr None"
    unfolding normalize_one_skip using get by (simp add: py_or_def)
  have 3: "\<forall>str. v = JStr str \<and> str \<noteq> [] \<longrightarrow>
            (\<exists>row. normalize_one (JObj s) = Inr (Some row) \<and>
               map_of row COL_modules =
                 Some (JStr (py_join (py '', '')
                   (map strip (filter (\<lambda>n. strip n \<noteq> []) (map (\<lambda>c. [c]) str))))))"
  proof (intro allI impI)
    fix str assume v: "v = JStr str \<and> str \<noteq> []"
    with get have m: "py_or (dict_get s KEY_related_modules) (JArr []) = JStr str"
      by (simp add: py_or_def)
    then obtain row where row: "normalize_one (JObj s) = Inr (Some row)"
      by (simp add: Let_def joined_modules_string)
    from modules_column [OF row] m joined_modules_string [of str]
    have "map_of row COL_modules =
        Some (JStr (py_join (py '', '')
           (map strip (filter (\<lambda>n. strip n \<noteq> []) (map (\<lambda>c. [c]) str)))))"
      by simp
    with row show "\<exists>row. normalize_one (JObj s) = Inr (Some row) \<and>
               map_of row COL_modules =
                 Some (JStr (py_join (py '', '')
                   (map strip (filter (\<lambda>n. strip n \<noteq> []) (map (\<lambda>c. [c]) str)))))"
      by blast
  qed
  have 4: "\<forall>e. truthy v \<and> py_iter v = Inl e \<longrightarrow> normalize_one (JObj s) = Inl e"
    using get not_short by (simp add: Let_def py_or_def joined_modules_def)
  from 1 2 3 4 show ?thesis by blast
qed

theorem non_list_modules_field_witness:
  "map_of [(KEY_related_modules, JStr (py ''ab''))] KEY_related_modules = Some (JStr (py ''ab'')) \<and>
   (\<forall>xs. JStr (py ''ab'') \<noteq> JArr xs) \<and>
   truthy (JStr (py ''ab'')) \<and>
   normalize_one (JObj [(KEY_related_modules, JStr (py ''ab''))])
   = Inr (Some [(COL_location, JStr NOT_SPECIFIED),
                (COL_summary, JStr NOT_SPECIFIED),
                (COL_modules, JStr (py ''a, b'')),
                (COL_scenario, JStr NOT_SPECIFIED),
                (COL_flow, JStr NOT_SPECIFIED)]) \<and>
   normalize_one (JObj [(KEY_related_modules, JStr (py ''ab''))]) \<noteq> Inr None"
  using non_list_modules_field [of "[(KEY_related_modules, JStr (py ''ab''))]" "JStr (py ''ab'')"]
  by (simp add: eval_defs py_def)

text \<open>
  Without the condition on the truth value the property fails: an element whose modules
  field is the empty string is discarded.
\<close>

theorem falsy_modules_field_counterexample:
  "map_of [(KEY_requirement_location, JStr (py ''Section 2'')),
           (KEY_related_modules, JStr [])] KEY_related_modules = Some (JStr []) \<and>
   normalize_one (JObj [(KEY_requirement_location, JStr (py ''Section 2'')),
                        (KEY_related_modules, JStr [])]) = Inr None"
  by (simp add: eval_defs py_def)

subsection \<open>The fields of a record\<close>

text \<open>
  Claim C4. An element that passes the module filter, and whose modules can be joined,
  gives a record; in this record each of the four fields requirement location, flow
  summary, test scenario and flow classification whose key the element does not have is
  the string \<open>Not specified in document\<close>. The same holds of every record the loop body
  returns for an element.
\<close>

theorem missing_field_defaults:
  "(\<not> short_list (modules_of s) \<and> joined_modules (modules_of s) = Inr joined \<longrightarrow>
      (\<exists>row. normalize_one (JObj s) = Inr (Some row) \<and>
         (\<forall>(k, col) \<in> set text_fields.
            map_of s k = None \<longrightarrow> map_of row col = Some (JStr NOT_SPECIFIED)))) \<and>
   (\<forall>row. normalize_one (JObj s) = Inr (Some row) \<longrightarrow>
      (\<forall>(k, col) \<in> set text_fields.
         map_of s k = None \<longrightarrow> map_of row col = Some (JStr NOT_SPECIFIED)))"
proof -
  have any: "map_of row col = Some (JStr NOT_SPECIFIED)"
    if "normalize_one (JObj s) = Inr (Some row)" "(k, col) \<in> set text_fields" "map_of s k = None"
    for row k col
    using text_field_column [OF that(1,2)] dict_get_absent [OF that(3)]
    by (simp add: py_or_def)
  have "\<exists>row. normalize_one (JObj s) = Inr (Some row)"
    if "\<not> short_list (modules_of s)" "joined_modules (modules_of s) = Inr joined"
    using that by (simp add: modules_of_def Let_def)
  with any show ?thesis by blast
qed

theorem missing_field_defaults_witness:
  "\<not> short_list (modules_of [(KEY_related_modules, JArr [JStr (py ''Billing''), JStr (py ''Ledger'')])]) \<and>
   joined_modules (modules_of [(KEY_related_modules, JArr [JStr (py ''Billing''), JStr (py ''Ledger'')])])
     = Inr (py ''Billing, Ledger'') \<and>
   normalize_one (JObj [(KEY_related_modules, JArr [JStr (py ''Billing''), JStr (py ''Ledger'')])])
     = Inr (Some [(COL_location, JStr NOT_SPECIFIED),
                  (COL_summary, JStr NOT_SPECIFIED),
                  (COL_modules, JStr (py ''Billing, Ledger'')),
                  (COL_scenario, JStr NOT_SPECIFIED),
                  (COL_flow, JStr NOT_SPECIFIED)]) \<and>
   map (\<lambda>(k, col). map_of [(KEY_related_modules, JArr [JStr (py ''Billing''), JStr (py ''Ledger'')])] k)
       text_fields = [None, None, None, None] \<and>
   map (\<lambda>(k, col). map_of [(COL_location, JStr NOT_SPECIFIED),
                  (COL_summary, JStr NOT_SPECIFIED),
                  (COL_modules, JStr (py ''Billing, Ledger'')),
                  (COL_scenario, JStr NOT_SPECIFIED),
                  (COL_flow, JStr NOT_SPECIFIED)] col) text_fields
     = [Some (JStr NOT_SPECIFIED), Some (JStr NOT_SPECIFIED), Some (JStr NOT_SPECIFIED),
        Some (JStr NOT_SPECIFIED)]"
  using missing_field_defaults [of
    "[(KEY_related_modules, JArr [JStr (py ''Billing''), JStr (py ''Ledger'')])]"
    "py ''Billing, Ledger''"]
  by (simp add: eval_defs modules_of_def text_fields_def py_def)

text \<open>
  Claim C10. An element that passes the module filter, and whose modules can be joined,
  gives a record in which each of the same four fields whose value is falsy (the empty
  string, \<open>0\<close>, \<open>null\<close>, \<open>false\<close>, ...) is \<open>Not specified in document\<close>, as for an
  absent field. In every record the loop body returns the value of each of the four
  fields is truthy, so it is never the empty string.
\<close>

theorem falsy_field_defaults:
  "(\<not> short_list (modules_of s) \<and> joined_modules (modules_of s) = Inr joined \<longrightarrow>
      (\<exists>row. normalize_one (JObj s) = Inr (Some row) \<and>
         (\<forall>(k, col) \<in> set text_fields.
            \<not> truthy (dict_get s k) \<longrightarrow> map_of row col = Some (JStr NOT_SPECIFIED)))) \<and>
   (\<forall>row. normalize_one (JObj s) = Inr (Some row) \<longrightarrow>
      (\<forall>(k, col) \<in> set text_fields.
         (\<not> truthy (dict_get s k) \<longrightarrow> map_of row col = Some (JStr NOT_SPECIFIED)) \<and>
         (\<exists>v. map_of row col = Some v \<and> truthy v) \<and>
         map_of row col \<noteq> Some (JStr [])))"
proof -
  have any: "(\<not> truthy (dict_get s k) \<longrightarrow> map_of row col = Some (JStr NOT_SPECIFIED)) \<and>
         (\<exists>v. map_of row col = Some v \<and> truthy v) \<and>
         map_of row col \<noteq> Some (JStr [])"
    if r: "normalize_one (JObj s) = Inr (Some row)" and f: "(k, col) \<in> set text_fields"
    for row k col
  proof -
    have col: "map_of row col = Some (py_or (dict_get s k) (JStr NOT_SPECIFIED))"
      by (rule text_field_column [OF r f])
    have t: "truthy (py_or (dict_get s k) (JStr NOT_SPECIFIED))"
      by (rule py_or_truthy) (simp add: NOT_SPECIFIED_nonempty)
    have "\<not> truthy (dict_get s k) \<longrightarrow> map_of row col = Some (JStr NOT_SPECIFIED)"
      using col by (simp add: py_or_def)
    moreover have "\<exists>v. map_of row col = Some v \<and> truthy v"
      using col t by blast
    moreover have "map_of row col \<noteq> Some (JStr [])"
      using col t by auto
    ultimately show ?thesis by blast
  qed
  have "\<exists>row. normalize_one (JObj s) = Inr (Some row)"
    if "\<not> short_list (modules_of s)" "joined_modules (modules_of s) = Inr joined"
    using that by (simp add: modules_of_def Let_def)
  with any show ?thesis by blast
qed

theorem falsy_field_defaults_witness:
  "\<not> short_list (modules_of
       [(KEY_requirement_location, JStr []),
        (KEY_integration_flow_summary, JInt 0),
        (KEY_related_modules, JArr [JStr (py ''Billing''), JStr (py ''Ledger'')]),
        (KEY_test_scenario_integration, JNull),
        (KEY_flow_type, JBool False)]) \<and>
   joined_modules (modules_of
       [(KEY_requirement_location, JStr []),
        (KEY_integration_flow_summary, JInt 0),
        (KEY_related_modules, JArr [JStr (py ''Billing''), JStr (py ''Ledger'')]),
        (KEY_test_scenario_integration, JNull),
        (KEY_flow_type, JBool False)]) = Inr (py ''Billing, Ledger'') \<and>
   normalize_one (JObj
       [(KEY_requirement_location, JStr []),
        (KEY_integration_flow_summary, JInt 0),
        (KEY_related_modules, JArr [JStr (py ''Billing''), JStr (py ''Ledger'')]),
        (KEY_test_scenario_integration, JNull),
        (KEY_flow_type, JBool False)])
     = Inr (Some [(COL_location, JStr NOT_SPECIFIED),
                  (COL_summary, JStr NOT_SPECIFIED),
                  (COL_modules, JStr (py ''Billing, Ledger'')),
                  (COL_scenario, JStr NOT_SPECIFIED),
                  (COL_flow, JStr NOT_SPECIFIED)]) \<and>
   map (\<lambda>(k, col). dict_get
       [(KEY_requirement_location, JStr []),
        (KEY_integration_flow_summary, JInt 0),
        (KEY_related_modules, JArr [JStr (py ''Billing''), JStr (py ''Ledger'')]),
        (KEY_test_scenario_integration, JNull),
        (KEY_flow_type, JBool False)] k) text_fields
     = [JStr [], JInt 0, JNull, JBool False] \<and>
   map truthy [JStr [], JInt 0, JNull, JBool False] = [False, False, False, False]"
  using falsy_field_defaults [of
    "[(KEY_requirement_location, JStr []),
      (KEY_integration_flow_summary, JInt 0),
      (KEY_related_modules, JArr [JStr (py ''Billing''), JStr (py ''Ledger'')]),
      (KEY_test_scenario_integration, JNull),
      (KEY_flow_type, JBool False)]"
    "py ''Billing, Ledger''"]
  by (simp add: eval_defs modules_of_def text_fields_def py_def)

text \<open>
  Claim C7, amended. When the modules field of an element that gives a record is a list,
  all its entries are strings, and the modules column of the record is made of the
  entries that are not blank, each stripped of the whitespace around it, joined with
  \<open>", "\<close>. Blank entries are left out.
\<close>

theorem modules_trimmed_and_joined:
  assumes "normalize_one (JObj s) = Inr (Some row)"
    and "dict_get s KEY_related_modules = JArr ms"
  shows "\<exists>names. ms = map JStr names \<and>
           map_of row COL_modules =
             Some (JStr (py_join (py '', '') (map strip (filter (\<lambda>n. strip n \<noteq> []) names))))"
proof -
  from assms(1) have "\<not> short_list (py_or (dict_get s KEY_related_modules) (JArr []))"
    unfolding normalize_one_row by blast
  with assms(2) have m: "py_or (dict_get s KEY_related_modules) (JArr []) = JArr ms"
    by (cases ms) (simp_all add: py_or_def)
  from modules_column [OF assms(1)] m obtain joined where
    j: "joined_modules (JArr ms) = Inr joined" "map_of row COL_modules = Some (JStr joined)"
    by auto
  from j(1) obtain ts where ts: "stripped_modules ms = Inr ts" "joined = py_join (py '', '') ts"
    by (auto simp add: joined_modules_def split: sum.splits)
  from stripped_modules_strings [OF ts(1)] obtain names where
    "ms = map JStr names" "ts = map strip (filter (\<lambda>n. strip n \<noteq> []) names)"
    by blast
  with j(2) ts(2) have "ms = map JStr names \<and>
      map_of row COL_modules =
        Some (JStr (py_join (py '', '') (map strip (filter (\<lambda>n. strip n \<noteq> []) names))))"
    by simp
  then show ?thesis by (rule exI [of _ names])
qed

theorem modules_trimmed_and_joined_witness:
  "normalize_one (JObj [(KEY_related_modules,
       JArr [JStr (py '' Billing''), JStr (py '' ''), JStr (py ''Ledger  '')])])
   = Inr (Some [(COL_location, JStr NOT_SPECIFIED),
                (COL_summary, JStr NOT_SPECIFIED),
                (COL_modules, JStr (py ''Billing, Ledger'')),
                (COL_scenario, JStr NOT_SPECIFIED),
                (COL_flow, JStr NOT_SPECIFIED)]) \<and>
   dict_get [(KEY_related_modules,
       JArr [JStr (py '' Billing''), JStr (py '' ''), JStr (py ''Ledger  '')])] KEY_related_modules
   = JArr [JStr (py '' Billing''), JStr (py '' ''), JStr (py ''Ledger  '')] \<and>
   (\<exists>names. [JStr (py '' Billing''), JStr (py '' ''), JStr (py ''Ledger  '')] = map JStr names \<and>
      map_of [(COL_location, JStr NOT_SPECIFIED),
                (COL_summary, JStr NOT_SPECIFIED),
                (COL_modules, JStr (py ''Billing, Ledger'')),
                (COL_scenario, JStr NOT_SPECIFIED),
                (COL_flow, JStr NOT_SPECIFIED)] COL_modules =
        Some (JStr (py_join (py '', '') (map strip (filter (\<lambda>n. strip n \<noteq> []) names)))))"
  using modules_trimmed_and_joined [of
    "[(KEY_related_modules,
       JArr [JStr (py '' Billing''), JStr (py '' ''), JStr (py ''Ledger  '')])]"
    "[(COL_location, JStr NOT_SPECIFIED),
                (COL_summary, JStr NOT_SPECIFIED),
                (COL_modules, JStr (py ''Billing, Ledger'')),
                (COL_scenario, JStr NOT_SPECIFIED),
                (COL_flow, JStr NOT_SPECIFIED)]"
    "[JStr (py '' Billing''), JStr (py '' ''), JStr (py ''Ledger  '')]"]
  by (simp add: eval_defs py_def)

text \<open>
  With the blank entries kept the property fails: for the modules
  \<open>["Billing", " ", "Ledger"]\<close> the column is \<open>Billing, Ledger\<close>, and stripping and
  joining all three entries gives \<open>Billing, , Ledger\<close>.
\<close>

theorem blank_names_in_join_counterexample:
  "normalize_one (JObj [(KEY_related_modules,
       JArr [JStr (py ''Billing''), JStr (py '' ''), JStr (py ''Ledger'')])])
   = Inr (Some [(COL_location, JStr NOT_SPECIFIED),
                (COL_summary, JStr NOT_SPECIFIED),
                (COL_modules, JStr (py ''Billing, Ledger'')),
                (COL_scenario, JStr NOT_SPECIFIED),
                (COL_flow, JStr NOT_SPECIFIED)]) \<and>
   py_join (py '', '') (map strip [py ''Billing'', py '' '', py ''Ledger'']) = py ''Billing, , Ledger'' \<and>
   py ''Billing, Ledger'' \<noteq> py ''Billing, , Ledger''"
  by (simp add: eval_defs py_def)

subsection \<open>The order of the records\<close>

text \<open>
  Claim C6. When the normalisation returns, the records are those of the elements of
  \<open>scenarios\<close> that were not skipped, one for each, in the order of the elements:
  the list of the records is the list of the results of the loop body with the skipped
  elements taken out.
\<close>

theorem output_order_preserved:
  assumes "normalize_scenarios (JObj parsed) = Inr rows"
  shows "\<exists>scenarios. py_iter (dict_get_default parsed KEY_scenarios (JArr [])) = Inr scenarios \<and>
           map (\<lambda>r. Inr (Some r)) rows =
             filter (\<lambda>r. r \<noteq> Inr None) (map normalize_one scenarios)"
proof (cases "py_iter (dict_get_default parsed KEY_scenarios (JArr []))")
  case (Inl e)
  with assms show ?thesis by simp
next
  case (Inr scenarios)
  with assms have "normalize_loop scenarios [] = Inr rows" by simp
  from normalize_loop_rows [OF this] Inr show ?thesis by simp
qed

theorem output_order_preserved_witness:
  "normalize_scenarios (JObj [(KEY_scenarios, JArr
      [JObj [(KEY_requirement_location, JStr (py ''1'')),
             (KEY_related_modules, JArr [JStr (py ''A''), JStr (py ''B'')])],
       JObj [(KEY_requirement_location, JStr (py ''2'')),
             (KEY_related_modules, JArr [JStr (py ''C'')])],
       JObj [(KEY_requirement_location, JStr (py ''3'')),
             (KEY_related_modules, JArr [JStr (py ''D''), JStr (py ''E'')])]])])
   = Inr [[(COL_location, JStr (py ''1'')), (COL_summary, JStr NOT_SPECIFIED),
           (COL_modules, JStr (py ''A, B'')), (COL_scenario, JStr NOT_SPECIFIED),
           (COL_flow, JStr NOT_SPECIFIED)],
          [(COL_location, JStr (py ''3'')), (COL_summary, JStr NOT_SPECIFIED),
           (COL_modules, JStr (py ''D, E'')), (COL_scenario, JStr NOT_SPECIFIED),
           (COL_flow, JStr NOT_SPECIFIED)]] \<and>
   map normalize_one
      [JObj [(KEY_requirement_location, JStr (py ''1'')),
             (KEY_related_modules, JArr [JStr (py ''A''), JStr (py ''B'')])],
       JObj [(KEY_requirement_location, JStr (py ''2'')),
             (KEY_related_modules, JArr [JStr (py ''C'')])],
       JObj [(KEY_requirement_location, JStr (py ''3'')),
             (KEY_related_modules, JArr [JStr (py ''D''), JStr (py ''E'')])]]
   = [Inr (Some [(COL_location, JStr (py ''1'')), (COL_summary, JStr NOT_SPECIFIED),
           (COL_modules, JStr (py ''A, B'')), (COL_scenario, JStr NOT_SPECIFIED),
           (COL_flow, JStr NOT_SPECIFIED)]),
      Inr None,
      Inr (Some [(COL_location, JStr (py ''3'')), (COL_summary, JStr NOT_SPECIFIED),
           (COL_modules, JStr (py ''D, E'')), (COL_scenario, JStr NOT_SPECIFIED),
           (COL_flow, JStr NOT_SPECIFIED)])]"
  using output_order_preserved [of
     "[(KEY_scenarios, JArr
      [JObj [(KEY_requirement_location, JStr (py ''1'')),
             (KEY_related_modules, JArr [JStr (py ''A''), JStr (py ''B'')])],
       JObj [(KEY_requirement_location, JStr (py ''2'')),
             (KEY_related_modules, JArr [JStr (py ''C'')])],
       JObj [(KEY_requirement_location, JStr (py ''3'')),
             (KEY_related_modules, JArr [JStr (py ''D''), JStr (py ''E'')])]])]"
     "[[(COL_location, JStr (py ''1'')), (COL_summary, JStr NOT_SPECIFIED),
           (COL_modules, JStr (py ''A, B'')), (COL_scenario, JStr NOT_SPECIFIED),
           (COL_flow, JStr NOT_SPECIFIED)],
          [(COL_location, JStr (py ''3'')), (COL_summary, JStr NOT_SPECIFIED),
           (COL_modules, JStr (py ''D, E'')), (COL_scenario, JStr NOT_SPECIFIED),
           (COL_flow, JStr NOT_SPECIFIED)]]"]
  by (simp add: eval_defs py_def)

subsection \<open>The reply without a function call\<close>

text \<open>
  Claim C2. Let the service return a response with a first choice. The extraction raises
  a \<open>RuntimeError\<close> exactly when the message has no tool calls (\<open>None\<close> or an empty
  list), and then with the message that the model did not return a function call. With
  a tool call present the result is that of parsing the arguments of the first one with
  \<open>json.loads\<close> and normalising what it returns.
\<close>

theorem no_function_call_error:
  assumes "api (make_request doc_text) = Inr resp"
    and "choices resp = c # cs"
  shows "(\<forall>m. fst (extract_scenarios_with_function_call api json_loads doc_text sent0)
                = Inl (RuntimeError m) \<longleftrightarrow>
              (tool_calls (message c) = None \<or> tool_calls (message c) = Some []) \<and>
              m = NO_FUNCTION_CALL) \<and>
         (\<forall>tc tcs. tool_calls (message c) = Some (tc # tcs) \<longrightarrow>
            fst (extract_scenarios_with_function_call api json_loads doc_text sent0) =
              (case json_loads (arguments (func tc)) of
                 None \<Rightarrow> Inl JSONDecodeError
               | Some parsed \<Rightarrow> normalize_scenarios parsed))"
proof -
  let ?result = "fst (extract_scenarios_with_function_call api json_loads doc_text sent0)"
  have parsed: "?result =
      (case json_loads (arguments (func tc)) of
         None \<Rightarrow> Inl JSONDecodeError
       | Some parsed \<Rightarrow> normalize_scenarios parsed)"
    if "tool_calls (message c) = Some (tc # tcs)" for tc tcs
    using assms that
    by (simp add: extract_scenarios_with_function_call_def Let_def split: option.splits)
  have none: "?result = Inl (RuntimeError NO_FUNCTION_CALL)"
    if "tool_calls (message c) = None \<or> tool_calls (message c) = Some []"
    using assms that
    by (auto simp add: extract_scenarios_with_function_call_def Let_def)
  have other: "?result \<noteq> Inl (RuntimeError m)"
    if "tool_calls (message c) = Some (tc # tcs)" for tc tcs m
  proof (cases "json_loads (arguments (func tc))")
    case None
    with parsed [OF that] show ?thesis by simp
  next
    case (Some p)
    with parsed [OF that] have "?result = normalize_scenarios p" by simp
    with normalize_scenarios_error [of p "RuntimeError m"] show ?thesis by auto
  qed
  have "?result = Inl (RuntimeError m) \<longleftrightarrow>
          (tool_calls (message c) = None \<or> tool_calls (message c) = Some []) \<and>
          m = NO_FUNCTION_CALL" for m
  proof (cases "tool_calls (message c)")
    case None
    with none show ?thesis by auto
  next
    case (Some tcs)
    show ?thesis
    proof (cases tcs)
      case Nil
      with Some none show ?thesis by auto
    next
      case (Cons tc tcs')
      with Some other [of tc tcs' m] show ?thesis by simp
    qed
  qed
  with parsed show ?thesis by blast
qed

theorem no_function_call_error_witness:
  "fst (extract_scenarios_with_function_call
          (\<lambda>req. Inr \<lparr>choices = [\<lparr>message = \<lparr>tool_calls = None\<rparr>\<rparr>]\<rparr>)
          (\<lambda>args. None) (py ''Billing calls Ledger.'') [])
     = Inl (RuntimeError NO_FUNCTION_CALL) \<and>
   fst (extract_scenarios_with_function_call
          (\<lambda>req. Inr \<lparr>choices = [\<lparr>message = \<lparr>tool_calls =
             Some [\<lparr>func = \<lparr>name = py ''submit_integration_scenarios'',
                             arguments = py ''{}''\<rparr>\<rparr>]\<rparr>\<rparr>]\<rparr>)
          (\<lambda>args. if args = py ''{}'' then Some (JObj []) else None)
          (py ''Billing calls Ledger.'') [])
     = Inr []"
  using
    no_function_call_error [of
      "\<lambda>req. Inr \<lparr>choices = [\<lparr>message = \<lparr>tool_calls = None\<rparr>\<rparr>]\<rparr>"
      "py ''Billing calls Ledger.''"
      "\<lparr>choices = [\<lparr>message = \<lparr>tool_calls = None\<rparr>\<rparr>]\<rparr>"
      "\<lparr>message = \<lparr>tool_calls = None\<rparr>\<rparr>" "[]" "\<lambda>args. None" "[]"]
    no_function_call_error [of
      "\<lambda>req. Inr \<lparr>choices = [\<lparr>message = \<lparr>tool_calls =
             Some [\<lparr>func = \<lparr>name = py ''submit_integration_scenarios'',
                             arguments = py ''{}''\<rparr>\<rparr>]\<rparr>\<rparr>]\<rparr>"
      "py ''Billing calls Ledger.''"
      "\<lparr>choices = [\<lparr>message = \<lparr>tool_calls =
             Some [\<lparr>func = \<lparr>name = py ''submit_integration_scenarios'',
                             arguments = py ''{}''\<rparr>\<rparr>]\<rparr>\<rparr>]\<rparr>"
      "\<lparr>message = \<lparr>tool_calls =
             Some [\<lparr>func = \<lparr>name = py ''submit_integration_scenarios'',
                             arguments = py ''{}''\<rparr>\<rparr>]\<rparr>\<rparr>" "[]"
      "\<lambda>args. if args = py ''{}'' then Some (JObj []) else None" "[]"]
  by (simp add: dict_get_default_def)

subsection \<open>The missing credential\<close>

text \<open>
  Claim C3. With a file uploaded and the button pressed, when \<open>OPENAI_API_KEY\<close> is
  not in the environment, the run shows the error that the key is not set and nothing
  else, and no request is handed to the service: the list of the requests sent is as it
  was.
\<close>

theorem missing_credential_no_request:
  assumes "environ OPENAI_API_KEY = None"
  shows "sent (main_action lib api json_loads environ (Some file) True w) = sent w \<and>
         shown (main_action lib api json_loads environ (Some file) True w)
           = shown w @ [Error KEY_NOT_SET]"
proof -
  obtain decoded where "fst (read_text file) = Inr decoded"
    using read_text_total by blast
  with assms show ?thesis
    by (simp add: main_action_def not_getenv_def st_def)
qed

theorem missing_credential_no_request_witness:
  "Map.empty OPENAI_API_KEY = None \<and>
   main_action
      \<lparr>new_frame = \<lambda>cols rows. None, show_frame = \<lambda>cols rows. None,
       csv_bytes = \<lambda>cols rows. Inr [], offer_download = \<lambda>csv. None\<rparr>
      (\<lambda>req. Inl (APIError [])) (\<lambda>args. None) Map.empty
      (Some \<lparr>content = [0x41, 0x42], pos = 0\<rparr>) True \<lparr>sent = [], shown = []\<rparr>
   = \<lparr>sent = [], shown = [Error KEY_NOT_SET]\<rparr>"
  using missing_credential_no_request [of Map.empty
      "\<lparr>new_frame = \<lambda>cols rows. None, show_frame = \<lambda>cols rows. None,
        csv_bytes = \<lambda>cols rows. Inr [], offer_download = \<lambda>csv. None\<rparr>"
      "\<lambda>req. Inl (APIError [])" "\<lambda>args. None"
      "\<lparr>content = [0x41, 0x42], pos = 0\<rparr>" "\<lparr>sent = [], shown = []\<rparr>"]
  by (simp add: main_action_def not_getenv_def st_def read_text_def file_read_def)

subsection \<open>The document loader always returns a text\<close>

text \<open>
  Claim C5. Whatever bytes the uploaded file holds and wherever its read position is,
  \<open>read_text\<close> raises nothing and returns a string. Bytes that are valid UTF-8 are
  decoded as they are; when they are not (strict decoding would raise
  \<open>UnicodeDecodeError\<close>), the string holds U+FFFD. More exactly, the string is built
  character by character from the front of the bytes: a well-formed character gives its
  code point, a malformed range gives one U+FFFD in its place, and what follows is the
  text of the bytes right behind the character or the range, none of them left out.
\<close>

theorem read_text_never_raises:
  "\<exists>decoded. fst (read_text file) = Inr decoded \<and>
     (\<forall>s. utf8_decode Strict (fst (file_read file)) = Inr s \<longrightarrow> decoded = s) \<and>
     (\<forall>e. utf8_decode Strict (fst (file_read file)) = Inl e \<longrightarrow>
        REPLACEMENT_CHARACTER \<in> set decoded) \<and>
     (fst (file_read file) = [] \<longrightarrow> decoded = []) \<and>
     (fst (file_read file) \<noteq> [] \<longrightarrow>
        (\<exists>behind.
           fst (read_text
                 \<lparr>content = drop (consumed (utf8_decode_one (fst (file_read file)))
                                   (fst (file_read file)))
                             (fst (file_read file)),
                  pos = 0\<rparr>) = Inr behind \<and>
           decoded =
             (case utf8_decode_one (fst (file_read file)) of
                Decoded cp n \<Rightarrow> cp
              | _ \<Rightarrow> REPLACEMENT_CHARACTER) # behind))"
proof -
  let ?bs = "fst (file_read file)"
  obtain decoded where t: "utf8_decode Replace ?bs = Inr decoded"
    using utf8_decode_replace_total by blast
  have 1: "fst (read_text file) = Inr decoded"
    by (simp add: read_text_decodes t)
  have 2: "\<forall>s. utf8_decode Strict ?bs = Inr s \<longrightarrow> decoded = s"
    using strict_then_replace t by fastforce
  have 3: "\<forall>e. utf8_decode Strict ?bs = Inl e \<longrightarrow> REPLACEMENT_CHARACTER \<in> set decoded"
    using replace_marks_malformed t by blast
  have 4: "?bs = [] \<longrightarrow> decoded = []"
    using t by auto
  have 5: "?bs \<noteq> [] \<longrightarrow>
        (\<exists>behind.
           fst (read_text \<lparr>content = drop (consumed (utf8_decode_one ?bs) ?bs) ?bs, pos = 0\<rparr>)
             = Inr behind \<and>
           decoded =
             (case utf8_decode_one ?bs of Decoded cp n \<Rightarrow> cp | _ \<Rightarrow> REPLACEMENT_CHARACTER)
             # behind)"
  proof
    assume "?bs \<noteq> []"
    from utf8_decode_replace_step [OF this] t show "\<exists>behind.
           fst (read_text \<lparr>content = drop (consumed (utf8_decode_one ?bs) ?bs) ?bs, pos = 0\<rparr>)
             = Inr behind \<and>
           decoded =
             (case utf8_decode_one ?bs of Decoded cp n \<Rightarrow> cp | _ \<Rightarrow> REPLACEMENT_CHARACTER)
             # behind"
      by (auto simp add: read_text_decodes file_read_from_start)
  qed
  from 1 2 3 4 5 show ?thesis by blast
qed

theorem read_text_never_raises_witness:
  "fst (read_text \<lparr>content = [0x41, 0xFF, 0x42, 0xE2, 0x82, 0x43, 0xC3, 0xA9, 0xE2], pos = 0\<rparr>)
     = Inr [0x41, 0xFFFD, 0x42, 0xFFFD, 0x43, 0xE9, 0xFFFD] \<and>
   utf8_decode Strict
     (fst (file_read \<lparr>content = [0x41, 0xFF, 0x42, 0xE2, 0x82, 0x43, 0xC3, 0xA9, 0xE2], pos = 0\<rparr>))
     = Inl UnicodeDecodeError \<and>
   REPLACEMENT_CHARACTER \<in> set [0x41, 0xFFFD, 0x42, 0xFFFD, 0x43, 0xE9, 0xFFFD] \<and>
   fst (read_text \<lparr>content = [0xFF, 0x42, 0xE2, 0x82, 0x43, 0xC3, 0xA9, 0xE2], pos = 0\<rparr>)
     = Inr [0xFFFD, 0x42, 0xFFFD, 0x43, 0xE9, 0xFFFD] \<and>
   utf8_decode_one [0xFF, 0x42, 0xE2, 0x82, 0x43, 0xC3, 0xA9, 0xE2] = Invalid_start \<and>
   fst (read_text \<lparr>content = [0x42, 0xE2, 0x82, 0x43, 0xC3, 0xA9, 0xE2], pos = 0\<rparr>)
     = Inr [0x42, 0xFFFD, 0x43, 0xE9, 0xFFFD]"
  using
    read_text_never_raises
      [of "\<lparr>content = [0x41, 0xFF, 0x42, 0xE2, 0x82, 0x43, 0xC3, 0xA9, 0xE2], pos = 0\<rparr>"]
    read_text_never_raises
      [of "\<lparr>content = [0xFF, 0x42, 0xE2, 0x82, 0x43, 0xC3, 0xA9, 0xE2], pos = 0\<rparr>"]
  by (simp add: read_text_def file_read_def is_continuation_def REPLACEMENT_CHARACTER_def)

end
